theory Spec2Isabelle
  imports Complex_Main
begin

section \<open>Python values used by \<open>heatmap.py\<close>\<close>

text \<open>
  The statistics and legends of \<open>review_heatmap/heatmap.py\<close> are Python numbers. An
  \<open>int\<close> is unbounded; a \<open>float\<close> is idealised as the rational it denotes (no
  rounding, no infinities, no NaN), which is exact for the products the legend computes
  (a dyadic factor times an integer average of ordinary size). The constructor keeps the
  Python type, because \<open>str\<close> renders \<open>1\<close> and \<open>1.0\<close> differently.
\<close>

datatype pynum = PyInt int | PyFloat rat

fun num_val :: "pynum \<Rightarrow> rat" where
  "num_val (PyInt i) = of_int i"
| "num_val (PyFloat q) = q"

text \<open>Python compares an \<open>int\<close> and a \<open>float\<close> by their exact values.\<close>

definition py_le :: "pynum \<Rightarrow> pynum \<Rightarrow> bool" where
  "py_le a b = (num_val a \<le> num_val b)"

definition py_lt :: "pynum \<Rightarrow> pynum \<Rightarrow> bool" where
  "py_lt a b = (num_val a < num_val b)"

fun py_neg :: "pynum \<Rightarrow> pynum" where
  "py_neg (PyInt i) = PyInt (- i)"
| "py_neg (PyFloat q) = PyFloat (- q)"

fun py_abs :: "pynum \<Rightarrow> pynum" where
  "py_abs (PyInt i) = PyInt \<bar>i\<bar>"
| "py_abs (PyFloat q) = PyFloat \<bar>q\<bar>"

text \<open>\<open>a * b\<close>: an \<open>int\<close> when both operands are, a \<open>float\<close> otherwise.\<close>

fun py_mul :: "pynum \<Rightarrow> pynum \<Rightarrow> pynum" where
  "py_mul (PyInt a) (PyInt b) = PyInt (a * b)"
| "py_mul a b = PyFloat (num_val a * num_val b)"

text \<open>
  \<open>max(a, b)\<close> of two arguments returns the first one unless the second is strictly
  greater, so \<open>max(20, 20.0)\<close> is the integer \<open>20\<close>.
\<close>

definition py_max :: "pynum \<Rightarrow> pynum \<Rightarrow> pynum" where
  "py_max a b = (if py_lt a b then b else a)"

text \<open>A value that is a number or a string (a label, a template argument, a preset field).\<close>

datatype pyval = PyNum pynum | PyStr string

datatype error = KeyError string

subsection \<open>\<open>str\<close> of a number\<close>

definition digit_char :: "nat \<Rightarrow> char" where
  "digit_char d = ''0123456789'' ! d"

function str_nat :: "nat \<Rightarrow> string" where
  "str_nat n = (if n < 10 then [digit_char n] else str_nat (n div 10) @ [digit_char (n mod 10)])"
  by pat_completeness auto
termination
  by (relation "measure (\<lambda>n. n)") auto

declare str_nat.simps [simp del]

definition str_int :: "int \<Rightarrow> string" where
  "str_int i = (if i < 0 then ''-'' @ str_nat (nat (- i)) else str_nat (nat i))"

text \<open>
  \<open>str(count)\<close>. The decimal rendering of an \<open>int\<close> is computed; the shortest
  round-trip rendering of a \<open>float\<close> is Python's own and is taken as the parameter
  \<open>float_str\<close>.
\<close>

fun py_str :: "(rat \<Rightarrow> string) \<Rightarrow> pynum \<Rightarrow> string" where
  "py_str float_str (PyInt i) = str_int i"
| "py_str float_str (PyFloat q) = float_str q"

section \<open>Class attributes of \<open>HeatmapCreator\<close>\<close>

definition css_colors :: "string list" where
  "css_colors =
    [''rh-col0'', ''rh-col11'', ''rh-col12'', ''rh-col13'', ''rh-col14'', ''rh-col15'',
     ''rh-col16'', ''rh-col17'', ''rh-col18'', ''rh-col19'', ''rh-col20'']"

text \<open>\<open>[colors[i] for i in indices]\<close>; the one call site passes indices below 11.\<close>

definition compress_levels :: "'a list \<Rightarrow> nat list \<Rightarrow> 'a list" where
  "compress_levels colors indices = map (\<lambda>i. colors ! i) indices"

type_synonym levels = "(pynum \<times> string) list"

definition stat_levels :: "string \<rightharpoonup> levels" where
  "stat_levels = map_of
    [(''streak'',
        zip (map PyInt [0, 14, 30, 90, 180, 365])
            (compress_levels css_colors [0, 2, 4, 6, 9, 10])),
     (''percentage'',
        zip (map PyInt [0, 25, 50, 60, 70, 80, 85, 90, 95, 99]) css_colors)]"

definition legend_factors :: "pynum list" where
  "legend_factors =
    [PyFloat (1 / 8), PyFloat (1 / 4), PyFloat (1 / 2), PyFloat (3 / 4), PyInt 1,
     PyFloat (5 / 4), PyFloat (3 / 2), PyInt 2, PyInt 4]"

definition stat_units :: "string \<rightharpoonup> string option" where
  "stat_units = map_of
    [(''streak'', Some ''day''), (''percentage'', None), (''cards'', Some ''card'')]"

section \<open>Legends\<close>

definition dynamic_legend :: "pynum \<Rightarrow> pynum list" where
  "dynamic_legend average =
    (let avg = py_max (PyInt 20) average
     in map (\<lambda>fct. py_mul fct avg) legend_factors)"

definition heatmap_legend :: "pynum list \<Rightarrow> pynum list" where
  "heatmap_legend legend = map py_neg (rev legend) @ [PyInt 0] @ legend"

definition get_dynamic_legends :: "pynum \<Rightarrow> pynum list \<times> pynum list" where
  "get_dynamic_legends average =
    (let legend = dynamic_legend average;
         stats_legend = [PyInt 0] @ legend;
         heatmap_legend = heatmap_legend legend
     in (stats_legend, heatmap_legend))"

section \<open>Labels and classification\<close>

text \<open>
  \<open>_maybe_pluralize\<close>: \<open>not term\<close> holds for \<open>None\<close> and for the empty string.
\<close>

definition maybe_pluralize :: "(rat \<Rightarrow> string) \<Rightarrow> pynum \<Rightarrow> string option \<Rightarrow> pyval" where
  "maybe_pluralize float_str count term =
    (case term of
       None \<Rightarrow> PyNum count
     | Some t \<Rightarrow>
         if t = [] then PyNum count
         else PyStr (py_str float_str count @ '' '' @ t @
                     (if py_lt (PyInt 1) (py_abs count) then ''s'' else '''')))"

text \<open>
  The inner loop of \<open>_generate_stats_elm\<close> (lines 172 to 175): \<open>css_class\<close> starts as
  \<open>css_colors[0]\<close>, every visited entry overwrites it, and the loop breaks at the first
  entry with \<open>value <= threshold\<close>.
\<close>

fun classify_loop :: "pynum \<Rightarrow> string \<Rightarrow> levels \<Rightarrow> string" where
  "classify_loop v css_class [] = css_class"
| "classify_loop v css_class ((threshold, c) # rest) =
    (if py_le v threshold then c else classify_loop v c rest)"

definition classify :: "pynum \<Rightarrow> levels \<Rightarrow> string" where
  "classify v lvls = classify_loop v (css_colors ! 0) lvls"

section \<open>Inputs, imported names and the host object\<close>

text \<open>
  One entry of \<open>data["stats"]\<close>: a dict with the keys \<open>type\<close> and \<open>value\<close>.
\<close>

record stat =
  stat_type :: string
  stat_value :: pynum

text \<open>
  What \<open>ActivityReporter.get_data\<close> returns when it returns data. \<open>data["stats"]\<close> is a
  dict, iterated in insertion order: an association list whose keys are distinct.
\<close>

record data =
  data_stats :: "(string \<times> stat) list"
  data_start :: int
  data_stop :: int
  data_today :: int
  data_offset :: int
  data_activity :: "(int \<times> pynum) list"

text \<open>\<open>self.config\<close>: the keys of \<open>config["profile"]\<close> and \<open>config["synced"]\<close> that are read.\<close>

record config =
  profile_display :: "string \<rightharpoonup> bool"
  profile_statsvis :: bool
  synced_colors :: string
  synced_mode :: string

record creator =
  creator_config :: config
  creator_whole :: bool

text \<open>One preset of \<open>heatmap_modes\<close> (module \<open>config\<close>).\<close>

record mode =
  mode_domain :: pyval
  mode_subDomain :: pyval
  mode_range :: pyval
  mode_domLabForm :: pyval

text \<open>The \<open>options\<close> dict of \<open>_generate_heatmap_elm\<close>.\<close>

record heatmap_options =
  opt_domain :: pyval
  opt_subdomain :: pyval
  opt_range :: pyval
  opt_domLabForm :: pyval
  opt_start :: int
  opt_stop :: int
  opt_today :: int
  opt_offset :: int
  opt_legend :: "pynum list"
  opt_whole :: bool

text \<open>
  The names \<open>heatmap.py\<close> imports from modules outside this file: \<open>PLATFORM\<close>,
  \<open>heatmap_modes\<close>, the templates of module \<open>web\<close> with their \<open>format\<close> method
  applied to the keyword arguments of each call site, \<open>json.dumps\<close> at its two argument
  types, and \<open>str\<close> on a float. \<open>html_streak.format(**format_dict)\<close> raises
  \<open>KeyError\<close> when the template names a key the dict lacks.
\<close>

record env =
  PLATFORM :: string
  heatmap_modes :: "string \<rightharpoonup> mode"
  html_main_element :: "string \<Rightarrow> string \<Rightarrow> string"
  html_info_nodata :: string
  html_heatmap :: "string \<Rightarrow> string \<Rightarrow> string"
  html_streak :: "(string \<rightharpoonup> pyval) \<Rightarrow> error + string"
  dumps_options :: "heatmap_options \<Rightarrow> string"
  dumps_activity :: "(int \<times> pynum) list \<Rightarrow> string"
  float_str :: "rat \<Rightarrow> string"

text \<open>
  The three attributes \<open>_save_current_perf\<close> sets on the host object \<open>mw\<close>;
  \<open>None\<close> is an attribute that has not been set.
\<close>

record mw =
  hmStreakMax :: "pynum option"
  hmStreakCur :: "pynum option"
  hmActivityDailyAvg :: "pynum option"

section \<open>Methods of \<open>HeatmapCreator\<close>\<close>

text \<open>
  The methods keep their names without the leading underscore; \<open>self\<close> is the
  creator record, and the imported names come in the record \<open>env\<close>.
\<close>

text \<open>\<open>d[k]\<close> on a dict.\<close>

definition getitem :: "(string \<rightharpoonup> 'v) \<Rightarrow> string \<Rightarrow> error + 'v" where
  "getitem d k = (case d k of None \<Rightarrow> Inl (KeyError k) | Some v \<Rightarrow> Inr v)"

text \<open>\<open>sep.join(xs)\<close>.\<close>

fun str_join :: "string \<Rightarrow> string list \<Rightarrow> string" where
  "str_join sep [] = ''''"
| "str_join sep [x] = x"
| "str_join sep (x # y # ys) = x @ sep @ str_join sep (y # ys)"

definition get_css_classes :: "creator \<Rightarrow> env \<Rightarrow> string \<Rightarrow> string list" where
  "get_css_classes self e view =
    [''rh-platform-'' @ PLATFORM e,
     ''rh-theme-'' @ synced_colors (creator_config self),
     ''rh-mode-'' @ synced_mode (creator_config self),
     ''rh-view-'' @ view]"

definition generate_heatmap_elm :: "creator \<Rightarrow> env \<Rightarrow> data \<Rightarrow> pynum list \<Rightarrow> error + string" where
  "generate_heatmap_elm self e d legend =
    (case getitem (heatmap_modes e) (synced_mode (creator_config self)) of
       Inl err \<Rightarrow> Inl err
     | Inr m \<Rightarrow>
         let options = \<lparr>opt_domain = mode_domain m, opt_subdomain = mode_subDomain m,
                        opt_range = mode_range m, opt_domLabForm = mode_domLabForm m,
                        opt_start = data_start d, opt_stop = data_stop d,
                        opt_today = data_today d, opt_offset = data_offset d,
                        opt_legend = legend, opt_whole = creator_whole self\<rparr>
         in Inr (html_heatmap e (dumps_options e options) (dumps_activity e (data_activity d))))"

text \<open>
  The local \<open>stat_levels\<close> of \<open>_generate_stats_elm\<close>: a fresh dict with the key
  \<open>cards\<close>, then \<open>update\<close> with the class attribute (whose entries win on a shared key).
\<close>

definition local_stat_levels :: "pynum list \<Rightarrow> (string \<rightharpoonup> levels)" where
  "local_stat_levels legend =
    [''cards'' \<mapsto> zip legend css_colors] ++ stat_levels"

text \<open>The loop over \<open>data["stats"].items()\<close>, filling \<open>format_dict\<close>.\<close>

fun stats_loop ::
  "env \<Rightarrow> (string \<rightharpoonup> levels) \<Rightarrow> (string \<times> stat) list \<Rightarrow> (string \<rightharpoonup> pyval)
    \<Rightarrow> error + (string \<rightharpoonup> pyval)" where
  "stats_loop e lv [] format_dict = Inr format_dict"
| "stats_loop e lv ((name, stat_dict) # rest) format_dict =
    (let stype = stat_type stat_dict; v = stat_value stat_dict
     in case getitem lv stype of
          Inl err \<Rightarrow> Inl err
        | Inr lvls \<Rightarrow>
            let css_class = classify v lvls
            in case getitem stat_units stype of
                 Inl err \<Rightarrow> Inl err
               | Inr unit \<Rightarrow>
                   let label = maybe_pluralize (float_str e) v unit
                   in stats_loop e lv rest
                        (format_dict(''class_'' @ name \<mapsto> PyStr css_class,
                                     ''text_'' @ name \<mapsto> label)))"

definition generate_stats_elm :: "env \<Rightarrow> data \<Rightarrow> pynum list \<Rightarrow> error + string" where
  "generate_stats_elm e d legend =
    (case stats_loop e (local_stat_levels legend) (data_stats d) Map.empty of
       Inl err \<Rightarrow> Inl err
     | Inr format_dict \<Rightarrow> html_streak e format_dict)"

text \<open>
  \<open>_save_current_perf\<close>: three assignments in order; a missing statistic raises
  \<open>KeyError\<close> after the assignments before it have taken effect.
\<close>

definition save_current_perf :: "data \<Rightarrow> mw \<Rightarrow> (error + unit) \<times> mw" where
  "save_current_perf d m =
    (case getitem (map_of (data_stats d)) ''streak_max'' of
       Inl err \<Rightarrow> (Inl err, m)
     | Inr smax \<Rightarrow>
         let m1 = m\<lparr>hmStreakMax := Some (stat_value smax)\<rparr>
         in case getitem (map_of (data_stats d)) ''streak_cur'' of
              Inl err \<Rightarrow> (Inl err, m1)
            | Inr scur \<Rightarrow>
                let m2 = m1\<lparr>hmStreakCur := Some (stat_value scur)\<rparr>
                in case getitem (map_of (data_stats d)) ''activity_daily_avg'' of
                     Inl err \<Rightarrow> (Inl err, m2)
                   | Inr avg \<Rightarrow> (Inr (), m2\<lparr>hmActivityDailyAvg := Some (stat_value avg)\<rparr>))"

text \<open>
  Lines 106 to 124 of \<open>generate\<close>, for data that is present: the values of the locals
  \<open>heatmap\<close>, \<open>stats\<close> and \<open>classes\<close> when line 126 is reached, and the host object.
\<close>

definition generate_sections ::
  "creator \<Rightarrow> env \<Rightarrow> string \<Rightarrow> data \<Rightarrow> mw \<Rightarrow> (error + string \<times> string \<times> string list) \<times> mw" where
  "generate_sections self e view d m =
    (let prefs = creator_config self
     in case getitem (map_of (data_stats d)) ''activity_daily_avg'' of
          Inl err \<Rightarrow> (Inl err, m)
        | Inr avg \<Rightarrow>
           (let legends = get_dynamic_legends (stat_value avg);
                stats_legend = fst legends;
                heatmap_legend = snd legends;
                classes = get_css_classes self e view
            in case getitem (profile_display prefs) view of
                 Inl err \<Rightarrow> (Inl err, m)
               | Inr shown \<Rightarrow>
                  (case (if shown
                         then map_sum id (\<lambda>h. (h, classes))
                                (generate_heatmap_elm self e d heatmap_legend)
                         else Inr ('''', classes @ [''rh-disable-heatmap''])) of
                     Inl err \<Rightarrow> (Inl err, m)
                   | Inr (heatmap, classes1) \<Rightarrow>
                      (case (if shown \<or> profile_statsvis prefs
                             then map_sum id (\<lambda>s. (s, classes1))
                                    (generate_stats_elm e d stats_legend)
                             else Inr ('''', classes1 @ [''rh-disable-stats''])) of
                         Inl err \<Rightarrow> (Inl err, m)
                       | Inr (stats, classes2) \<Rightarrow>
                          (case (if creator_whole self then save_current_perf d m
                                 else (Inr (), m)) of
                             (Inl err, m') \<Rightarrow> (Inl err, m')
                           | (Inr u, m') \<Rightarrow> (Inr (heatmap, stats, classes2), m'))))))"

text \<open>
  \<open>generate\<close>. The argument \<open>data\<close> is what \<open>self.activity.get_data(limhist, limfcst)\<close>
  returned: \<open>None\<close> stands for every falsy return (\<open>None\<close>, an empty dict). The result
  is the returned string or the exception raised, and the host object afterwards.
\<close>

definition generate ::
  "creator \<Rightarrow> env \<Rightarrow> string \<Rightarrow> data option \<Rightarrow> mw \<Rightarrow> (error + string) \<times> mw" where
  "generate self e view data m =
    (case data of
       None \<Rightarrow> (Inr (html_main_element e (html_info_nodata e) ''''), m)
     | Some d \<Rightarrow>
         (case generate_sections self e view d m of
            (Inl err, m') \<Rightarrow> (Inl err, m')
          | (Inr (heatmap, stats, classes), m') \<Rightarrow>
              (Inr (html_main_element e (heatmap @ stats) (str_join '' '' classes)), m')))"

section \<open>The classification rule in the specification's words\<close>

text \<open>
  The specification's \<open>classify(value, table)\<close>: the label of the first entry, in table
  order, with \<open>value <= threshold\<close>; the last entry's label when there is none.
\<close>

definition classify_spec :: "pynum \<Rightarrow> levels \<Rightarrow> string" where
  "classify_spec v table =
    (case find (\<lambda>entry. py_le v (fst entry)) table of
       Some entry \<Rightarrow> snd entry
     | None \<Rightarrow> snd (last table))"

text \<open>Ascending thresholds.\<close>

definition ascending :: "levels \<Rightarrow> bool" where
  "ascending table = sorted_wrt (\<lambda>a b. py_le (fst a) (fst b)) table"

section \<open>Sample inputs\<close>

text \<open>
  Stand-ins for the imported templates and presets, small enough to read the output of
  \<open>generate\<close> off the page; \<open>float_str\<close> is not exercised by the samples.
\<close>

definition sample_env :: env where
  "sample_env =
    \<lparr>PLATFORM = ''linux'',
     heatmap_modes =
       [''year'' \<mapsto> \<lparr>mode_domain = PyStr ''year'', mode_subDomain = PyStr ''day'',
                      mode_range = PyNum (PyInt 1), mode_domLabForm = PyStr ''%Y''\<rparr>],
     html_main_element = (\<lambda>content classes. content @ ''|'' @ classes),
     html_info_nodata = ''no data'',
     html_heatmap = (\<lambda>options activity. ''[heatmap]''),
     html_streak =
       (\<lambda>format_dict.
          case format_dict ''text_streak_cur'' of
            Some (PyStr label) \<Rightarrow> Inr (''[stats '' @ label @ '']'')
          | Some (PyNum n) \<Rightarrow> Inr ''[stats]''
          | None \<Rightarrow> Inl (KeyError ''text_streak_cur'')),
     dumps_options = (\<lambda>options. ''{}''),
     dumps_activity = (\<lambda>activity. ''{}''),
     float_str = (\<lambda>q. ''float'')\<rparr>"

definition sample_data :: data where
  "sample_data =
    \<lparr>data_stats =
       [(''streak_max'', \<lparr>stat_type = ''streak'', stat_value = PyInt 100\<rparr>),
        (''streak_cur'', \<lparr>stat_type = ''streak'', stat_value = PyInt 45\<rparr>),
        (''activity_daily_avg'', \<lparr>stat_type = ''cards'', stat_value = PyInt 40\<rparr>)],
     data_start = 0, data_stop = 10, data_today = 5, data_offset = 0,
     data_activity = [(0, PyInt 3)]\<rparr>"

definition sample_creator :: "bool \<Rightarrow> bool \<Rightarrow> bool \<Rightarrow> creator" where
  "sample_creator display statsvis whole =
    \<lparr>creator_config =
       \<lparr>profile_display = [''deckbrowser'' \<mapsto> display], profile_statsvis = statsvis,
        synced_colors = ''lime'', synced_mode = ''year''\<rparr>,
     creator_whole = whole\<rparr>"

definition sample_mw :: mw where
  "sample_mw = \<lparr>hmStreakMax = None, hmStreakCur = None, hmActivityDailyAvg = None\<rparr>"

definition sample_table :: levels where
  "sample_table = [(PyInt 0, ''a''), (PyInt 25, ''b''), (PyInt 50, ''c'')]"

section \<open>Helper facts\<close>

lemma num_val_py_abs: "num_val (py_abs v) = \<bar>num_val v\<bar>"
  by (cases v) simp_all

lemma str_int_samples:
  "str_int 0 = ''0''" "str_int 1 = ''1''" "str_int 2 = ''2''" "str_int (- 1) = ''-1''"
  "str_int 5 = ''5''"
  by (simp_all add: str_int_def str_nat.simps digit_char_def)

lemma classify_loop_find:
  "classify_loop v c lvls =
    (case find (\<lambda>entry. py_le v (fst entry)) lvls of
       Some entry \<Rightarrow> snd entry
     | None \<Rightarrow> if lvls = [] then c else snd (last lvls))"
  by (induction lvls arbitrary: c) (auto split: option.splits)

lemma classify_loop_closed:
  "c \<in> S \<Longrightarrow> snd ` set lvls \<subseteq> S \<Longrightarrow> classify_loop v c lvls \<in> S"
  by (induction lvls arbitrary: c) auto

text \<open>
  In an ascending table the first entry whose threshold equals the value is also the
  first entry whose threshold is at least the value.
\<close>

lemma find_equal_threshold:
  assumes "ascending lvls"
    and "find (\<lambda>entry. num_val (fst entry) = num_val v) lvls = Some hit"
  shows "find (\<lambda>entry. py_le v (fst entry)) lvls = Some hit"
  using assms
proof (induction lvls)
  case Nil
  then show ?case by simp
next
  case (Cons x xs)
  show ?case
  proof (cases "num_val (fst x) = num_val v")
    case True
    with Cons.prems show ?thesis by (simp add: py_le_def)
  next
    case False
    with Cons.prems have later: "find (\<lambda>entry. num_val (fst entry) = num_val v) xs = Some hit"
      by simp
    then have "hit \<in> set xs" and "num_val (fst hit) = num_val v"
      by (auto simp: find_Some_iff)
    with Cons.prems(1) have "num_val (fst x) \<le> num_val v"
      by (auto simp: ascending_def py_le_def)
    with False have "\<not> py_le v (fst x)" by (simp add: py_le_def)
    moreover from Cons.prems(1) have "ascending xs" by (simp add: ascending_def)
    ultimately show ?thesis using Cons.IH later by simp
  qed
qed

section \<open>Label formatting\<close>

text \<open>
  What \<open>_maybe_pluralize\<close> computes: with the unit absent or empty the number itself;
  otherwise \<open>str(count)\<close>, a space and the unit, with the suffix \<open>s\<close> exactly when
  \<open>abs(count) > 1\<close>.
\<close>

lemma maybe_pluralize_rule:
  assumes "t \<noteq> []"
  shows "maybe_pluralize f v (Some t) =
      PyStr (py_str f v @ '' '' @ t @ (if 1 < \<bar>num_val v\<bar> then ''s'' else ''''))"
  using assms by (simp add: maybe_pluralize_def py_lt_def num_val_py_abs)

lemma maybe_pluralize_no_unit:
  "maybe_pluralize f v None = PyNum v" "maybe_pluralize f v (Some '''') = PyNum v"
  by (simp_all add: maybe_pluralize_def)

lemma maybe_pluralize_samples:
  "maybe_pluralize f (PyInt 1) (Some ''day'') = PyStr ''1 day''"
  "maybe_pluralize f (PyInt 2) (Some ''day'') = PyStr ''2 days''"
  "maybe_pluralize f (PyInt (- 1)) (Some ''day'') = PyStr ''-1 day''"
  "maybe_pluralize f (PyInt 5) None = PyNum (PyInt 5)"
  by (simp_all add: maybe_pluralize_rule maybe_pluralize_no_unit str_int_samples)

text \<open>
  C1. The claim asks for the suffix exactly when \<open>abs(value) != 1\<close>, so that
  \<open>formatLabel(0, "day")\<close> is \<open>0 days\<close>. The code tests \<open>abs(count) > 1\<close>: at the
  count 0 it returns \<open>0 day\<close>, and at the float one half it leaves the unit singular
  as well. The other examples of the claim hold (\<open>maybe_pluralize_samples\<close>).
\<close>

theorem maybe_pluralize_zero:
  "maybe_pluralize (float_str sample_env) (PyInt 0) (Some ''day'') = PyStr ''0 day''
   \<and> maybe_pluralize (float_str sample_env) (PyInt 0) (Some ''day'') \<noteq> PyStr ''0 days''
   \<and> maybe_pluralize (float_str sample_env) (PyFloat (1 / 2)) (Some ''day'') =
       PyStr (float_str sample_env (1 / 2) @ '' day'')"
  by (simp add: maybe_pluralize_def py_lt_def str_int_samples)

section \<open>Classification\<close>

text \<open>
  C2. On a non-empty table with ascending thresholds the loop of \<open>_generate_stats_elm\<close>
  returns the label of the first entry with \<open>value <= threshold\<close> and the last entry's
  label when there is none. The bound is inclusive: a value equal to a threshold gets
  the label of the first entry carrying that threshold. A value at or below the first
  threshold gets the first label.
\<close>

theorem classify_first_match:
  assumes "lvls \<noteq> []" and "ascending lvls"
  shows "classify v lvls = classify_spec v lvls
    \<and> (\<forall>hit. find (\<lambda>entry. num_val (fst entry) = num_val v) lvls = Some hit
          \<longrightarrow> classify v lvls = snd hit)
    \<and> (py_le v (fst (hd lvls)) \<longrightarrow> classify v lvls = snd (hd lvls))
    \<and> ((\<forall>entry \<in> set lvls. \<not> py_le v (fst entry)) \<longrightarrow> classify v lvls = snd (last lvls))"
proof -
  have spec: "classify v lvls = classify_spec v lvls"
    using assms(1) by (simp add: classify_def classify_spec_def classify_loop_find)
  have boundary: "classify v lvls = snd hit"
    if "find (\<lambda>entry. num_val (fst entry) = num_val v) lvls = Some hit" for hit
    using find_equal_threshold [OF assms(2) that] by (simp add: spec classify_spec_def)
  have lowest: "classify v lvls = snd (hd lvls)" if "py_le v (fst (hd lvls))"
    using assms(1) that by (cases lvls) (auto simp: classify_def)
  have overflow: "classify v lvls = snd (last lvls)"
    if "\<forall>entry \<in> set lvls. \<not> py_le v (fst entry)"
  proof -
    from that have "find (\<lambda>entry. py_le v (fst entry)) lvls = None"
      by (auto simp: find_None_iff)
    then show ?thesis by (simp add: spec classify_spec_def)
  qed
  from spec boundary lowest overflow show ?thesis by blast
qed

text \<open>The specification's table \<open>[(0, a), (25, b), (50, c)]\<close> at 0, 25, 26, 999 and -5.\<close>

theorem classify_first_match_witness:
  "sample_table \<noteq> [] \<and> ascending sample_table
   \<and> classify (PyInt 0) sample_table = ''a''
   \<and> classify (PyInt 25) sample_table = ''b''
   \<and> classify (PyInt 26) sample_table = ''c''
   \<and> classify (PyInt 999) sample_table = ''c''
   \<and> classify (PyInt (- 5)) sample_table = ''a''"
proof -
  have ne: "sample_table \<noteq> []" and asc: "ascending sample_table"
    by (simp_all add: sample_table_def ascending_def py_le_def)
  have eval: "classify_spec (PyInt 0) sample_table = ''a''"
    "classify_spec (PyInt 25) sample_table = ''b''"
    "classify_spec (PyInt 26) sample_table = ''c''"
    "classify_spec (PyInt 999) sample_table = ''c''"
    "classify_spec (PyInt (- 5)) sample_table = ''a''"
    by (simp_all add: classify_spec_def sample_table_def py_le_def)
  show ?thesis
    using ne asc eval
      classify_first_match [OF ne asc, of "PyInt 0"]
      classify_first_match [OF ne asc, of "PyInt 25"]
      classify_first_match [OF ne asc, of "PyInt 26"]
      classify_first_match [OF ne asc, of "PyInt 999"]
      classify_first_match [OF ne asc, of "PyInt (- 5)"]
    by simp
qed

text \<open>
  C10. The classification never fails and stays inside the colour set: for every value
  and every table, empty or not, whose labels are among \<open>css_colors\<close>, the class it
  yields is one of \<open>css_colors\<close>; on the empty table it is the initial value
  \<open>css_colors[0]\<close>, which is \<open>rh-col0\<close>.
\<close>

theorem classify_closed:
  assumes "snd ` set lvls \<subseteq> set css_colors"
  shows "classify v lvls \<in> set css_colors \<and> classify v [] = ''rh-col0''"
proof -
  have "css_colors ! 0 \<in> set css_colors" by (simp add: css_colors_def)
  then have "classify v lvls \<in> set css_colors"
    unfolding classify_def using assms by (rule classify_loop_closed)
  moreover have "classify v [] = ''rh-col0''" by (simp add: classify_def css_colors_def)
  ultimately show ?thesis by simp
qed

text \<open>A two-entry table with labels from the colour set, at the value 7.\<close>

theorem classify_closed_witness:
  "snd ` set [(PyInt 0, ''rh-col0''), (PyInt 25, ''rh-col11'')] \<subseteq> set css_colors
   \<and> classify (PyInt 7) [(PyInt 0, ''rh-col0''), (PyInt 25, ''rh-col11'')] \<in> set css_colors
   \<and> classify (PyInt 7) [(PyInt 0, ''rh-col0''), (PyInt 25, ''rh-col11'')] = ''rh-col11''
   \<and> classify (PyInt 7) [] = ''rh-col0''"
proof -
  have h: "snd ` set [(PyInt 0, ''rh-col0''), (PyInt 25, ''rh-col11'')] \<subseteq> set css_colors"
    by (simp add: css_colors_def)
  have "classify (PyInt 7) [(PyInt 0, ''rh-col0''), (PyInt 25, ''rh-col11'')] = ''rh-col11''"
    by (simp add: classify_def py_le_def)
  with h classify_closed [OF h, of "PyInt 7"] show ?thesis by simp
qed

section \<open>Properties of the legends\<close>



lemma py_max_floor: "num_val average \<le> 20 \<Longrightarrow> py_max (PyInt 20) average = PyInt 20"
  by (simp add: py_max_def py_lt_def)

lemma dynamic_legend_map:
  "dynamic_legend average =
    map (\<lambda>fct. py_mul fct (py_max (PyInt 20) average)) legend_factors"
  by (simp add: dynamic_legend_def Let_def)

lemma length_dynamic_legend: "length (dynamic_legend average) = 9"
  by (simp add: dynamic_legend_map legend_factors_def)

lemma fst_get_dynamic_legends:
  "fst (get_dynamic_legends average) = PyInt 0 # dynamic_legend average"
  by (simp add: get_dynamic_legends_def Let_def)


lemma get_dynamic_legends_pair:
  "get_dynamic_legends average =
    (PyInt 0 # dynamic_legend average, heatmap_legend (dynamic_legend average))"
  by (simp add: get_dynamic_legends_def Let_def)








lemma dynamic_legend_40:
  "dynamic_legend (PyInt 40) =
      [PyFloat 5, PyFloat 10, PyFloat 20, PyFloat 30, PyInt 40,
       PyFloat 50, PyFloat 60, PyInt 80, PyInt 160]"
  by (simp add: dynamic_legend_map legend_factors_def py_max_def py_lt_def)

lemma dynamic_legend_20:
  "dynamic_legend (PyInt 20) =
      [PyFloat (5 / 2), PyFloat 5, PyFloat 10, PyFloat 15, PyInt 20,
       PyFloat 25, PyFloat 30, PyInt 40, PyInt 80]"
  by (simp add: dynamic_legend_map legend_factors_def py_max_def py_lt_def)

lemma zip_take_length: "zip xs ys = zip xs (take (length xs) ys)"
  by (induction xs ys rule: list_induct2') simp_all

lemma zip_take_left: "length xs = n \<Longrightarrow> zip xs ys = zip xs (take n ys)"
  using zip_take_length [of xs ys] by simp



text \<open>
  C4. \<open>_dynamic_legend\<close> works on \<open>max(20, average)\<close>: two averages that are
  both at most 20 give the same legends, those of the average 20.
\<close>

theorem legend_floor:
  assumes "num_val a \<le> 20" and "num_val b \<le> 20"
  shows "get_dynamic_legends a = get_dynamic_legends b
    \<and> get_dynamic_legends a = get_dynamic_legends (PyInt 20)
    \<and> dynamic_legend a = map (\<lambda>fct. py_mul fct (PyInt 20)) legend_factors"
proof -
  have "dynamic_legend x = map (\<lambda>fct. py_mul fct (PyInt 20)) legend_factors"
    if "num_val x \<le> 20" for x
    using that by (simp only: dynamic_legend_map py_max_floor)
  from this [OF assms(1)] this [OF assms(2)] this [of "PyInt 20"]
  show ?thesis by (simp add: get_dynamic_legends_pair)
qed

text \<open>The averages 5, 0 and -3 against 20.\<close>

theorem legend_floor_witness:
  "num_val (PyInt 5) \<le> 20 \<and> num_val (PyInt 20) \<le> 20
   \<and> num_val (PyInt 0) \<le> 20 \<and> num_val (PyInt (- 3)) \<le> 20
   \<and> get_dynamic_legends (PyInt 5) = get_dynamic_legends (PyInt 20)
   \<and> get_dynamic_legends (PyInt 0) = get_dynamic_legends (PyInt 20)
   \<and> get_dynamic_legends (PyInt (- 3)) = get_dynamic_legends (PyInt 20)
   \<and> fst (get_dynamic_legends (PyInt 5)) =
       [PyInt 0, PyFloat (5 / 2), PyFloat 5, PyFloat 10, PyFloat 15, PyInt 20,
        PyFloat 25, PyFloat 30, PyInt 40, PyInt 80]"
proof -
  have h5: "num_val (PyInt 5) \<le> 20" and h20: "num_val (PyInt 20) \<le> 20"
    and h0: "num_val (PyInt 0) \<le> 20" and hneg: "num_val (PyInt (- 3)) \<le> 20"
    by simp_all
  have e5: "get_dynamic_legends (PyInt 5) = get_dynamic_legends (PyInt 20)"
    using legend_floor [OF h5 h20] by (rule conjunct1)
  have e0: "get_dynamic_legends (PyInt 0) = get_dynamic_legends (PyInt 20)"
    using legend_floor [OF h0 h20] by (rule conjunct1)
  have eneg: "get_dynamic_legends (PyInt (- 3)) = get_dynamic_legends (PyInt 20)"
    using legend_floor [OF hneg h20] by (rule conjunct1)
  have ev: "fst (get_dynamic_legends (PyInt 5)) =
       [PyInt 0, PyFloat (5 / 2), PyFloat 5, PyFloat 10, PyFloat 15, PyInt 20,
        PyFloat 25, PyFloat 30, PyInt 40, PyInt 80]"
    by (simp only: e5 fst_get_dynamic_legends dynamic_legend_20)
  from h5 h20 h0 hneg e5 e0 eneg ev show ?thesis by (intro conjI)
qed

section \<open>The table of the \<open>cards\<close> statistics\<close>

text \<open>
  C8. The local table of \<open>_generate_stats_elm\<close> maps \<open>cards\<close> to the stats
  legend zipped with \<open>css_colors\<close>: 10 pairs, the thresholds being the 10 legend
  values in order and the labels the first 10 of the 11 colours. The entries for
  \<open>streak\<close> and \<open>percentage\<close> are those of the class attribute.
\<close>

theorem cards_table:
  "local_stat_levels (fst (get_dynamic_legends average)) ''cards'' =
      Some (zip (fst (get_dynamic_legends average)) (take 10 css_colors))
   \<and> length (zip (fst (get_dynamic_legends average)) (take 10 css_colors)) = 10
   \<and> map fst (zip (fst (get_dynamic_legends average)) (take 10 css_colors)) =
       fst (get_dynamic_legends average)
   \<and> map snd (zip (fst (get_dynamic_legends average)) (take 10 css_colors)) =
       take 10 css_colors
   \<and> length css_colors = 11
   \<and> local_stat_levels (fst (get_dynamic_legends average)) ''streak'' = stat_levels ''streak''
   \<and> local_stat_levels (fst (get_dynamic_legends average)) ''percentage'' =
       stat_levels ''percentage''"
proof -
  let ?sl = "fst (get_dynamic_legends average)"
  have len: "length ?sl = 10"
    by (simp add: fst_get_dynamic_legends length_dynamic_legend)
  have colors: "length css_colors = 11" by (simp add: css_colors_def)
  then have len_take: "length (take 10 css_colors) = 10" by simp
  have no_cards: "stat_levels ''cards'' = None" by (simp add: stat_levels_def)
  have zip_take: "zip ?sl css_colors = zip ?sl (take 10 css_colors)"
    using len by (rule zip_take_left)
  have cards: "local_stat_levels ?sl ''cards'' = Some (zip ?sl (take 10 css_colors))"
    using no_cards zip_take by (simp add: local_stat_levels_def map_add_def)
  have streak: "local_stat_levels ?sl ''streak'' = stat_levels ''streak''"
    by (simp add: local_stat_levels_def map_add_def stat_levels_def)
  have pct: "local_stat_levels ?sl ''percentage'' = stat_levels ''percentage''"
    by (simp add: local_stat_levels_def map_add_def stat_levels_def)
  have l: "length (zip ?sl (take 10 css_colors)) = 10"
    using len len_take by simp
  have f: "map fst (zip ?sl (take 10 css_colors)) = ?sl"
    using len len_take by (simp add: map_fst_zip)
  have s: "map snd (zip ?sl (take 10 css_colors)) = take 10 css_colors"
    using len len_take by (simp only: map_snd_zip)
  from cards l f s colors streak pct show ?thesis by (intro conjI)
qed

section \<open>\<open>generate\<close> on the sample inputs\<close>

lemma sample_avg:
  "map_of (data_stats sample_data) ''activity_daily_avg'' =
    Some \<lparr>stat_type = ''cards'', stat_value = PyInt 40\<rparr>"
  by (simp add: sample_data_def)

lemma sample_heatmap_elm:
  "generate_heatmap_elm (sample_creator display statsvis whole) sample_env sample_data legend
    = Inr ''[heatmap]''"
  by (simp add: generate_heatmap_elm_def sample_creator_def sample_env_def getitem_def)

lemma sample_stats_elm:
  "generate_stats_elm sample_env sample_data (fst (get_dynamic_legends (PyInt 40)))
    = Inr ''[stats 45 days]''"
  by (simp add: generate_stats_elm_def sample_env_def sample_data_def getitem_def
      local_stat_levels_def stat_levels_def stat_units_def map_add_def
      fst_get_dynamic_legends dynamic_legend_40 css_colors_def compress_levels_def
      classify_def py_le_def maybe_pluralize_def py_lt_def str_int_def str_nat.simps
      digit_char_def Let_def)

lemma sample_save:
  "save_current_perf sample_data m =
    (Inr (), m\<lparr>hmStreakMax := Some (PyInt 100), hmStreakCur := Some (PyInt 45),
                hmActivityDailyAvg := Some (PyInt 40)\<rparr>)"
  by (simp add: save_current_perf_def sample_data_def getitem_def)

lemma sample_classes:
  "get_css_classes (sample_creator display statsvis whole) sample_env ''deckbrowser'' =
    [''rh-platform-linux'', ''rh-theme-lime'', ''rh-mode-year'', ''rh-view-deckbrowser'']"
  by (simp add: get_css_classes_def sample_creator_def sample_env_def)

lemma sample_prefs:
  "profile_display (creator_config (sample_creator display statsvis whole)) ''deckbrowser''
     = Some display"
  "profile_statsvis (creator_config (sample_creator display statsvis whole)) = statsvis"
  "creator_whole (sample_creator display statsvis whole) = whole"
  by (simp_all add: sample_creator_def)

lemma sample_sections:
  "generate_sections (sample_creator display statsvis whole) sample_env ''deckbrowser''
     sample_data m =
   (Inr (if display then ''[heatmap]'' else '''',
         if display \<or> statsvis then ''[stats 45 days]'' else '''',
         [''rh-platform-linux'', ''rh-theme-lime'', ''rh-mode-year'', ''rh-view-deckbrowser'']
           @ (if display then [] else [''rh-disable-heatmap''])
           @ (if display \<or> statsvis then [] else [''rh-disable-stats''])),
    if whole
    then m\<lparr>hmStreakMax := Some (PyInt 100), hmStreakCur := Some (PyInt 45),
            hmActivityDailyAvg := Some (PyInt 40)\<rparr>
    else m)"
  unfolding generate_sections_def Let_def
  by (simp add: sample_avg getitem_def sample_heatmap_elm sample_stats_elm sample_save
      sample_classes sample_prefs)

section \<open>The structure of \<open>generate\<close>\<close>

lemma save_current_perf_result:
  "fst (save_current_perf d m1) = fst (save_current_perf d m2)"
  by (simp add: save_current_perf_def getitem_def Let_def split: option.splits)

lemma save_current_perf_again:
  "snd (save_current_perf d (snd (save_current_perf d m))) = snd (save_current_perf d m)"
  by (simp add: save_current_perf_def getitem_def Let_def split: option.splits)

lemma save_current_perf_Inr:
  assumes "save_current_perf d m = (Inr u, m')"
  shows "\<exists>smax scur avg.
      map_of (data_stats d) ''streak_max'' = Some smax
    \<and> map_of (data_stats d) ''streak_cur'' = Some scur
    \<and> map_of (data_stats d) ''activity_daily_avg'' = Some avg
    \<and> m' = m\<lparr>hmStreakMax := Some (stat_value smax), hmStreakCur := Some (stat_value scur),
              hmActivityDailyAvg := Some (stat_value avg)\<rparr>"
  using assms
  by (auto simp: save_current_perf_def getitem_def Let_def split: option.splits)

lemma map_sum_id_Inr: "map_sum id f x = Inr y \<longleftrightarrow> (\<exists>z. x = Inr z \<and> y = f z)"
  by (cases x) auto

text \<open>The part of \<open>generate_sections\<close> that does not touch the host object.\<close>

lemma generate_sections_Inr:
  assumes "generate_sections self e view d m = (Inr (heatmap, stats, classes), m')"
  shows "\<exists>avg shown.
      map_of (data_stats d) ''activity_daily_avg'' = Some avg
    \<and> profile_display (creator_config self) view = Some shown
    \<and> (if shown
        then generate_heatmap_elm self e d (snd (get_dynamic_legends (stat_value avg)))
               = Inr heatmap
        else heatmap = '''')
    \<and> (if shown \<or> profile_statsvis (creator_config self)
        then generate_stats_elm e d (fst (get_dynamic_legends (stat_value avg))) = Inr stats
        else stats = '''')
    \<and> classes = get_css_classes self e view
        @ (if shown then [] else [''rh-disable-heatmap''])
        @ (if shown \<or> profile_statsvis (creator_config self) then [] else [''rh-disable-stats''])
    \<and> (if creator_whole self then save_current_perf d m = (Inr (), m') else m' = m)"
  using assms unfolding generate_sections_def Let_def getitem_def
  by (auto simp: map_sum_id_Inr split: option.splits sum.splits if_splits prod.splits)

text \<open>
  \<open>generate_sections\<close> is a computation that ignores the host object, followed by the
  guarded call of \<open>_save_current_perf\<close>.
\<close>

lemma generate_sections_split:
  "\<exists>pre. \<forall>m. generate_sections self e view d m =
    (case pre of
       Inl err \<Rightarrow> (Inl err, m)
     | Inr x \<Rightarrow>
        (case (if creator_whole self then save_current_perf d m else (Inr (), m)) of
           (Inl err, m') \<Rightarrow> (Inl err, m')
         | (Inr u, m') \<Rightarrow> (Inr x, m')))"
proof -
  let ?pre =
    "case getitem (map_of (data_stats d)) ''activity_daily_avg'' of
       Inl err \<Rightarrow> Inl err
     | Inr avg \<Rightarrow>
        (case getitem (profile_display (creator_config self)) view of
           Inl err \<Rightarrow> Inl err
         | Inr shown \<Rightarrow>
            (case (if shown
                   then map_sum id (\<lambda>h. (h, get_css_classes self e view))
                          (generate_heatmap_elm self e d
                            (snd (get_dynamic_legends (stat_value avg))))
                   else Inr ('''', get_css_classes self e view @ [''rh-disable-heatmap''])) of
               Inl err \<Rightarrow> Inl err
             | Inr (heatmap, classes1) \<Rightarrow>
                (case (if shown \<or> profile_statsvis (creator_config self)
                       then map_sum id (\<lambda>s. (s, classes1))
                              (generate_stats_elm e d
                                (fst (get_dynamic_legends (stat_value avg))))
                       else Inr ('''', classes1 @ [''rh-disable-stats''])) of
                   Inl err \<Rightarrow> Inl err
                 | Inr (stats, classes2) \<Rightarrow> Inr (heatmap, stats, classes2))))"
  have "\<forall>m. generate_sections self e view d m =
    (case ?pre of
       Inl err \<Rightarrow> (Inl err, m)
     | Inr x \<Rightarrow>
        (case (if creator_whole self then save_current_perf d m else (Inr (), m)) of
           (Inl err, m') \<Rightarrow> (Inl err, m')
         | (Inr u, m') \<Rightarrow> (Inr x, m')))"
    unfolding generate_sections_def Let_def
    by (simp split: sum.splits prod.splits)
  then show ?thesis by (rule exI)
qed

lemma generate_sections_result:
  "fst (generate_sections self e view d m1) = fst (generate_sections self e view d m2)"
proof -
  obtain pre where eq: "\<And>m. generate_sections self e view d m =
    (case pre of
       Inl err \<Rightarrow> (Inl err, m)
     | Inr x \<Rightarrow>
        (case (if creator_whole self then save_current_perf d m else (Inr (), m)) of
           (Inl err, m') \<Rightarrow> (Inl err, m')
         | (Inr u, m') \<Rightarrow> (Inr x, m')))"
    using generate_sections_split by blast
  show ?thesis
  proof (cases pre)
    case (Inl err)
    then show ?thesis by (simp add: eq)
  next
    case (Inr x)
    show ?thesis
    proof (cases "creator_whole self")
      case True
      obtain r1 n1 where s1: "save_current_perf d m1 = (r1, n1)" by (cases "save_current_perf d m1")
      obtain r2 n2 where s2: "save_current_perf d m2 = (r2, n2)" by (cases "save_current_perf d m2")
      from save_current_perf_result [of d m1 m2] s1 s2 have "r1 = r2" by simp
      with Inr True s1 s2 show ?thesis by (simp add: eq split: sum.splits)
    next
      case False
      with Inr show ?thesis by (simp add: eq)
    qed
  qed
qed

lemma generate_sections_again:
  "snd (generate_sections self e view d (snd (generate_sections self e view d m)))
    = snd (generate_sections self e view d m)"
proof -
  obtain pre where eq: "\<And>m. generate_sections self e view d m =
    (case pre of
       Inl err \<Rightarrow> (Inl err, m)
     | Inr x \<Rightarrow>
        (case (if creator_whole self then save_current_perf d m else (Inr (), m)) of
           (Inl err, m') \<Rightarrow> (Inl err, m')
         | (Inr u, m') \<Rightarrow> (Inr x, m')))"
    using generate_sections_split by blast
  have snd_eq: "snd (generate_sections self e view d n) =
      (case pre of Inl err \<Rightarrow> n
       | Inr x \<Rightarrow> if creator_whole self then snd (save_current_perf d n) else n)" for n
    by (cases "save_current_perf d n") (simp add: eq split: sum.splits)
  show ?thesis
    by (simp add: snd_eq save_current_perf_again split: sum.splits)
qed

lemma generate_result:
  "fst (generate self e view data m1) = fst (generate self e view data m2)"
proof (cases data)
  case None
  then show ?thesis by (simp add: generate_def)
next
  case (Some d)
  obtain r1 n1 where g1: "generate_sections self e view d m1 = (r1, n1)"
    by (cases "generate_sections self e view d m1")
  obtain r2 n2 where g2: "generate_sections self e view d m2 = (r2, n2)"
    by (cases "generate_sections self e view d m2")
  from generate_sections_result [of self e view d m1 m2] g1 g2 have "r1 = r2" by simp
  with Some g1 g2 show ?thesis by (simp add: generate_def split: sum.splits prod.splits)
qed

lemma snd_generate:
  "snd (generate self e view (Some d) m) = snd (generate_sections self e view d m)"
  by (cases "generate_sections self e view d m")
     (simp add: generate_def split: sum.splits prod.splits)

lemma generate_again:
  "snd (generate self e view data (snd (generate self e view data m)))
    = snd (generate self e view data m)"
proof (cases data)
  case None
  then show ?thesis by (simp add: generate_def)
next
  case (Some d)
  then show ?thesis by (simp only: snd_generate generate_sections_again)
qed

lemma generate_Some_Inr:
  assumes "generate self e view (Some d) m = (Inr payload, m')"
  shows "\<exists>heatmap stats classes.
      generate_sections self e view d m = (Inr (heatmap, stats, classes), m')
    \<and> payload = html_main_element e (heatmap @ stats) (str_join '' '' classes)"
  using assms
  by (cases "generate_sections self e view d m")
     (auto simp: generate_def split: sum.splits prod.splits)

lemma sample_generate:
  "generate (sample_creator display statsvis whole) sample_env ''deckbrowser''
     (Some sample_data) m =
   (Inr (html_main_element sample_env
          ((if display then ''[heatmap]'' else '''')
            @ (if display \<or> statsvis then ''[stats 45 days]'' else ''''))
          (str_join '' ''
            ([''rh-platform-linux'', ''rh-theme-lime'', ''rh-mode-year'', ''rh-view-deckbrowser'']
              @ (if display then [] else [''rh-disable-heatmap''])
              @ (if display \<or> statsvis then [] else [''rh-disable-stats''])))),
    if whole
    then m\<lparr>hmStreakMax := Some (PyInt 100), hmStreakCur := Some (PyInt 45),
            hmActivityDailyAvg := Some (PyInt 40)\<rparr>
    else m)"
  by (simp add: generate_def sample_sections)

lemma sample_main_element:
  "html_main_element sample_env content classes = content @ ''|'' @ classes"
  by (simp add: sample_env_def)

section \<open>Properties of \<open>generate\<close>\<close>

text \<open>
  C6. When the activity source yields no data, \<open>generate\<close> returns the main template
  filled with the fixed no-data text and the empty class string, whatever the
  configuration, the view and the host object are, as a returned value and not an
  exception; the host object is left as it was. Nothing else of the inputs enters the
  result, so no legend, classification or cache write takes part.
\<close>

theorem generate_no_data:
  "generate self e view None m = (Inr (html_main_element e (html_info_nodata e) ''''), m)"
  by (simp add: generate_def)

text \<open>
  C5, as the code has it. On a successful call with data, the heatmap section is
  produced exactly when \<open>prefs["display"][view]\<close> holds, and the stats section exactly
  when \<open>prefs["display"][view] or prefs["statsvis"]\<close> holds. A section that is not
  produced contributes the empty string, and its marker class, \<open>rh-disable-heatmap\<close>
  or \<open>rh-disable-stats\<close>, is appended to the classes. So the stats can appear without
  the heatmap, and the heatmap never appears without the stats.
\<close>

theorem generate_visibility:
  assumes "generate self e view (Some d) m = (Inr payload, m')"
  shows "\<exists>avg shown heatmap stats.
      map_of (data_stats d) ''activity_daily_avg'' = Some avg
    \<and> profile_display (creator_config self) view = Some shown
    \<and> (if shown
        then generate_heatmap_elm self e d (snd (get_dynamic_legends (stat_value avg)))
               = Inr heatmap
        else heatmap = '''')
    \<and> (if shown \<or> profile_statsvis (creator_config self)
        then generate_stats_elm e d (fst (get_dynamic_legends (stat_value avg))) = Inr stats
        else stats = '''')
    \<and> payload = html_main_element e (heatmap @ stats)
        (str_join '' ''
          (get_css_classes self e view
            @ (if shown then [] else [''rh-disable-heatmap''])
            @ (if shown \<or> profile_statsvis (creator_config self)
               then [] else [''rh-disable-stats''])))"
proof -
  from generate_Some_Inr [OF assms] obtain heatmap stats classes where
    sec: "generate_sections self e view d m = (Inr (heatmap, stats, classes), m')"
    and pay: "payload = html_main_element e (heatmap @ stats) (str_join '' '' classes)"
    by blast
  from generate_sections_Inr [OF sec] pay show ?thesis by blast
qed

text \<open>
  The sample with the heatmap off and \<open>statsvis\<close> on: the stats section alone, with the
  heatmap marker; and with both off: no content and both markers.
\<close>

theorem generate_visibility_witness:
  "generate (sample_creator False True False) sample_env ''deckbrowser'' (Some sample_data)
      sample_mw =
     (Inr ''[stats 45 days]|rh-platform-linux rh-theme-lime rh-mode-year rh-view-deckbrowser rh-disable-heatmap'',
      sample_mw)
   \<and> generate (sample_creator False False False) sample_env ''deckbrowser'' (Some sample_data)
      sample_mw =
     (Inr ''|rh-platform-linux rh-theme-lime rh-mode-year rh-view-deckbrowser rh-disable-heatmap rh-disable-stats'',
      sample_mw)
   \<and> (\<exists>avg shown heatmap stats.
        map_of (data_stats sample_data) ''activity_daily_avg'' = Some avg
      \<and> profile_display (creator_config (sample_creator False True False)) ''deckbrowser''
          = Some shown
      \<and> (if shown
          then generate_heatmap_elm (sample_creator False True False) sample_env sample_data
                 (snd (get_dynamic_legends (stat_value avg))) = Inr heatmap
          else heatmap = '''')
      \<and> (if shown \<or> profile_statsvis (creator_config (sample_creator False True False))
          then generate_stats_elm sample_env sample_data
                 (fst (get_dynamic_legends (stat_value avg))) = Inr stats
          else stats = '''')
      \<and> ''[stats 45 days]|rh-platform-linux rh-theme-lime rh-mode-year rh-view-deckbrowser rh-disable-heatmap''
          = html_main_element sample_env (heatmap @ stats)
              (str_join '' ''
                (get_css_classes (sample_creator False True False) sample_env ''deckbrowser''
                  @ (if shown then [] else [''rh-disable-heatmap''])
                  @ (if shown \<or> profile_statsvis (creator_config (sample_creator False True False))
                     then [] else [''rh-disable-stats'']))))"
proof -
  have h1: "generate (sample_creator False True False) sample_env ''deckbrowser''
      (Some sample_data) sample_mw =
     (Inr ''[stats 45 days]|rh-platform-linux rh-theme-lime rh-mode-year rh-view-deckbrowser rh-disable-heatmap'',
      sample_mw)"
    by (simp add: sample_generate sample_main_element)
  have h2: "generate (sample_creator False False False) sample_env ''deckbrowser''
      (Some sample_data) sample_mw =
     (Inr ''|rh-platform-linux rh-theme-lime rh-mode-year rh-view-deckbrowser rh-disable-heatmap rh-disable-stats'',
      sample_mw)"
    by (simp add: sample_generate sample_main_element)
  from h1 h2 generate_visibility [OF h1] show ?thesis by (intro conjI)
qed

text \<open>
  C5 as stated fails: the two sections are not gated independently. With the display
  preference on and \<open>statsvis\<close> off the stats section is produced and no marker is
  added, and no call at all ends with the stats marker but without the heatmap marker.
\<close>

theorem heatmap_without_stats_counterexample:
  "generate_sections (sample_creator True False False) sample_env ''deckbrowser''
      sample_data sample_mw =
     (Inr (''[heatmap]'', ''[stats 45 days]'',
           [''rh-platform-linux'', ''rh-theme-lime'', ''rh-mode-year'', ''rh-view-deckbrowser'']),
      sample_mw)
   \<and> \<not> (\<exists>self e view d m heatmap stats classes m'.
          generate_sections self e view d m = (Inr (heatmap, stats, classes), m')
        \<and> ''rh-disable-heatmap'' \<notin> set classes
        \<and> ''rh-disable-stats'' \<in> set classes)"
proof (rule conjI)
  show "generate_sections (sample_creator True False False) sample_env ''deckbrowser''
      sample_data sample_mw =
     (Inr (''[heatmap]'', ''[stats 45 days]'',
           [''rh-platform-linux'', ''rh-theme-lime'', ''rh-mode-year'', ''rh-view-deckbrowser'']),
      sample_mw)"
    by (simp add: sample_sections)
next
  show "\<not> (\<exists>self e view d m heatmap stats classes m'.
          generate_sections self e view d m = (Inr (heatmap, stats, classes), m')
        \<and> ''rh-disable-heatmap'' \<notin> set classes
        \<and> ''rh-disable-stats'' \<in> set classes)"
  proof
    assume "\<exists>self e view d m heatmap stats classes m'.
          generate_sections self e view d m = (Inr (heatmap, stats, classes), m')
        \<and> ''rh-disable-heatmap'' \<notin> set classes
        \<and> ''rh-disable-stats'' \<in> set classes"
    then obtain self e view d m heatmap stats classes m' where
      sec: "generate_sections self e view d m = (Inr (heatmap, stats, classes), m')"
      and no_h: "''rh-disable-heatmap'' \<notin> set classes"
      and has_s: "''rh-disable-stats'' \<in> set classes"
      by blast
    from generate_sections_Inr [OF sec] obtain shown where
      cls: "classes = get_css_classes self e view
        @ (if shown then [] else [''rh-disable-heatmap''])
        @ (if shown \<or> profile_statsvis (creator_config self) then [] else [''rh-disable-stats''])"
      by blast
    have base: "''rh-disable-stats'' \<notin> set (get_css_classes self e view)"
      by (simp add: get_css_classes_def)
    from no_h cls have "shown" by (auto split: if_splits)
    with cls has_s base show False by simp
  qed
qed

text \<open>
  C7. A call of \<open>generate\<close> on data that returns a payload leaves the host object with
  the three attributes set to the values of \<open>streak_max\<close>, \<open>streak_cur\<close> and
  \<open>activity_daily_avg\<close> when the creator is in whole-collection mode, and leaves it
  unchanged otherwise; the payload is the same from every state of the host object.
  (The call without data writes nothing, which is C6.)
\<close>

theorem cache_write_iff_whole:
  assumes "generate self e view (Some d) m = (Inr payload, m')"
  shows "(if creator_whole self
          then \<exists>smax scur avg.
              map_of (data_stats d) ''streak_max'' = Some smax
            \<and> map_of (data_stats d) ''streak_cur'' = Some scur
            \<and> map_of (data_stats d) ''activity_daily_avg'' = Some avg
            \<and> m' = m\<lparr>hmStreakMax := Some (stat_value smax),
                      hmStreakCur := Some (stat_value scur),
                      hmActivityDailyAvg := Some (stat_value avg)\<rparr>
          else m' = m)
    \<and> (\<forall>m2. fst (generate self e view (Some d) m2) = Inr payload)"
proof -
  from generate_Some_Inr [OF assms] obtain heatmap stats classes where
    sec: "generate_sections self e view d m = (Inr (heatmap, stats, classes), m')"
    by blast
  from generate_sections_Inr [OF sec] have
    step: "if creator_whole self then save_current_perf d m = (Inr (), m') else m' = m"
    by blast
  have cache: "if creator_whole self
          then \<exists>smax scur avg.
              map_of (data_stats d) ''streak_max'' = Some smax
            \<and> map_of (data_stats d) ''streak_cur'' = Some scur
            \<and> map_of (data_stats d) ''activity_daily_avg'' = Some avg
            \<and> m' = m\<lparr>hmStreakMax := Some (stat_value smax),
                      hmStreakCur := Some (stat_value scur),
                      hmActivityDailyAvg := Some (stat_value avg)\<rparr>
          else m' = m"
  proof (cases "creator_whole self")
    case True
    with step have "save_current_perf d m = (Inr (), m')" by simp
    from save_current_perf_Inr [OF this] True show ?thesis by simp
  next
    case False
    with step show ?thesis by simp
  qed
  have same: "fst (generate self e view (Some d) m2) = Inr payload" for m2
    using generate_result [of self e view "Some d" m2 m] assms by simp
  from cache same show ?thesis by blast
qed

text \<open>The sample in whole-collection mode and outside it.\<close>

theorem cache_write_iff_whole_witness:
  "generate (sample_creator True True True) sample_env ''deckbrowser'' (Some sample_data)
      sample_mw =
     (Inr ''[heatmap][stats 45 days]|rh-platform-linux rh-theme-lime rh-mode-year rh-view-deckbrowser'',
      \<lparr>hmStreakMax = Some (PyInt 100), hmStreakCur = Some (PyInt 45),
         hmActivityDailyAvg = Some (PyInt 40)\<rparr>)
   \<and> generate (sample_creator True True False) sample_env ''deckbrowser'' (Some sample_data)
      sample_mw =
     (Inr ''[heatmap][stats 45 days]|rh-platform-linux rh-theme-lime rh-mode-year rh-view-deckbrowser'',
      sample_mw)
   \<and> (\<forall>m2. fst (generate (sample_creator True True True) sample_env ''deckbrowser''
                   (Some sample_data) m2) =
        Inr ''[heatmap][stats 45 days]|rh-platform-linux rh-theme-lime rh-mode-year rh-view-deckbrowser'')
   \<and> (\<forall>m2. fst (generate (sample_creator True True False) sample_env ''deckbrowser''
                   (Some sample_data) m2) =
        Inr ''[heatmap][stats 45 days]|rh-platform-linux rh-theme-lime rh-mode-year rh-view-deckbrowser'')"
proof -
  have h1: "generate (sample_creator True True True) sample_env ''deckbrowser''
      (Some sample_data) sample_mw =
     (Inr ''[heatmap][stats 45 days]|rh-platform-linux rh-theme-lime rh-mode-year rh-view-deckbrowser'',
      \<lparr>hmStreakMax = Some (PyInt 100), hmStreakCur = Some (PyInt 45),
         hmActivityDailyAvg = Some (PyInt 40)\<rparr>)"
    by (simp add: sample_generate sample_main_element sample_mw_def)
  have h2: "generate (sample_creator True True False) sample_env ''deckbrowser''
      (Some sample_data) sample_mw =
     (Inr ''[heatmap][stats 45 days]|rh-platform-linux rh-theme-lime rh-mode-year rh-view-deckbrowser'',
      sample_mw)"
    by (simp add: sample_generate sample_main_element)
  from cache_write_iff_whole [OF h1] have a1:
    "\<forall>m2. fst (generate (sample_creator True True True) sample_env ''deckbrowser''
                   (Some sample_data) m2) =
        Inr ''[heatmap][stats 45 days]|rh-platform-linux rh-theme-lime rh-mode-year rh-view-deckbrowser''"
    by (rule conjunct2)
  from cache_write_iff_whole [OF h2] have a2:
    "\<forall>m2. fst (generate (sample_creator True True False) sample_env ''deckbrowser''
                   (Some sample_data) m2) =
        Inr ''[heatmap][stats 45 days]|rh-platform-linux rh-theme-lime rh-mode-year rh-view-deckbrowser''"
    by (rule conjunct2)
  from h1 h2 a1 a2 show ?thesis by (intro conjI)
qed

text \<open>
  C9. \<open>generate\<close> called a second time on the same creator, view and data, from the
  host object the first call left behind, returns the same result as the first call and
  leaves the host object as the first call left it; more generally the result does not
  depend on the host object, the only state a call changes.
\<close>

theorem generate_deterministic:
  "fst (generate self e view data (snd (generate self e view data m)))
      = fst (generate self e view data m)
   \<and> snd (generate self e view data (snd (generate self e view data m)))
      = snd (generate self e view data m)
   \<and> fst (generate self e view data m1) = fst (generate self e view data m2)"
proof (intro conjI)
  show "fst (generate self e view data (snd (generate self e view data m)))
      = fst (generate self e view data m)"
    by (rule generate_result)
  show "snd (generate self e view data (snd (generate self e view data m)))
      = snd (generate self e view data m)"
    by (rule generate_again)
  show "fst (generate self e view data m1) = fst (generate self e view data m2)"
    by (rule generate_result)
qed

end
